theory Spec2Isabelle
  imports Main "HOL-Library.Char_ord" "HOL-Library.List_Lexorder"
begin

unbundle bit_operations_syntax

section \<open>Go strings\<close>

text \<open>
  A Go string is a sequence of bytes, and so is an Isabelle \<open>string\<close> (a list of
  8-bit characters). Go compares strings byte by byte, a proper prefix being smaller:
  that is the lexicographic order of \<open>List_Lexorder\<close> over the byte order of
  \<open>Char_ord\<close>. The functions of this section are the ones of packages
  \<open>strings\<close>, \<open>strconv\<close> and \<open>fmt\<close> that the package calls, on the arguments it
  calls them with.
\<close>

definition byte_of :: "char \<Rightarrow> nat" where
  "byte_of c = of_char c"

definition is_lower :: "char \<Rightarrow> bool" where
  "is_lower c = (97 \<le> byte_of c \<and> byte_of c \<le> 122)"

definition is_upper :: "char \<Rightarrow> bool" where
  "is_upper c = (65 \<le> byte_of c \<and> byte_of c \<le> 90)"

definition is_digit :: "char \<Rightarrow> bool" where
  "is_digit c = (48 \<le> byte_of c \<and> byte_of c \<le> 57)"

text \<open>\<open>strings.ToUpper\<close> on ASCII text: the letters a to z are shifted, every other
  byte below 128 is kept. (On bytes from 128 on Go decodes UTF-8; an HTTP method is
  a token of ASCII characters, and the model keeps such bytes.)\<close>

definition upper_char :: "char \<Rightarrow> char" where
  "upper_char c = (if is_lower c then char_of (byte_of c - 32) else c)"

definition ToUpper :: "string \<Rightarrow> string" where
  "ToUpper s = map upper_char s"

definition lower_char :: "char \<Rightarrow> char" where
  "lower_char c = (if is_upper c then char_of (byte_of c + 32) else c)"

definition ToLower :: "string \<Rightarrow> string" where
  "ToLower s = map lower_char s"

fun HasPrefix :: "string \<Rightarrow> string \<Rightarrow> bool" where
  "HasPrefix s [] = True"
| "HasPrefix [] (p # ps) = False"
| "HasPrefix (c # cs) (p # ps) = (c = p \<and> HasPrefix cs ps)"

text \<open>\<open>strings.Split(s, sep)\<close> for a separator that is not empty: the pieces of
  \<open>s\<close> between the occurrences of \<open>sep\<close>, found from the left; one piece, \<open>s\<close>
  itself, when there is none (also for the empty \<open>s\<close>). \<open>acc\<close> holds the bytes of
  the current piece, last first.\<close>

function Split_from :: "string \<Rightarrow> string \<Rightarrow> string \<Rightarrow> string list" where
  "Split_from sep acc s =
     (if s = [] then [rev acc]
      else if sep \<noteq> [] \<and> HasPrefix s sep then rev acc # Split_from sep [] (drop (length sep) s)
      else Split_from sep (hd s # acc) (tl s))"
  by pat_completeness auto
termination
  by (relation "measure (\<lambda>(sep, acc, s). length s)") auto

declare Split_from.simps [simp del]

definition Split :: "string \<Rightarrow> string \<Rightarrow> string list" where
  "Split s sep = Split_from sep [] s"

fun Join :: "string list \<Rightarrow> string \<Rightarrow> string" where
  "Join [] sep = []"
| "Join [x] sep = x"
| "Join (x # y # ys) sep = x @ sep @ Join (y # ys) sep"

text \<open>\<open>strings.Replace(s, old, new, -1)\<close> for an \<open>old\<close> of one byte, as both calls
  of the package have it: every occurrence is replaced.\<close>

definition Replace1 :: "string \<Rightarrow> char \<Rightarrow> string \<Rightarrow> string" where
  "Replace1 s old new = concat (map (\<lambda>c. if c = old then new else [c]) s)"

text \<open>\<open>strings.Cut(s, sep)\<close> for a separator of one byte: the text before and
  after its first occurrence.\<close>

definition Cut1 :: "string \<Rightarrow> char \<Rightarrow> string \<times> string" where
  "Cut1 s sep = (takeWhile (\<lambda>c. c \<noteq> sep) s, drop 1 (dropWhile (\<lambda>c. c \<noteq> sep) s))"

text \<open>\<open>strconv.FormatInt(i, 10)\<close>.\<close>

definition digit_char :: "nat \<Rightarrow> char" where
  "digit_char d = char_of (48 + d mod 10)"

function digits10 :: "nat \<Rightarrow> string \<Rightarrow> string" where
  "digits10 n acc = (if n < 10 then digit_char n # acc else digits10 (n div 10) (digit_char (n mod 10) # acc))"
  by pat_completeness auto
termination
  by (relation "measure (\<lambda>(n, acc). n)") auto

declare digits10.simps [simp del]

definition FormatInt :: "int \<Rightarrow> string" where
  "FormatInt i = (if i < 0 then CHR ''-'' # digits10 (nat (- i)) [] else digits10 (nat i) [])"

text \<open>\<open>fmt.Sprintf("%x", b)\<close> for a byte slice: two lower-case hexadecimal digits
  for every byte.\<close>

definition lowerhex :: "nat \<Rightarrow> char" where
  "lowerhex d = ''0123456789abcdef'' ! (d mod 16)"

definition upperhex :: "nat \<Rightarrow> char" where
  "upperhex d = ''0123456789ABCDEF'' ! (d mod 16)"

definition hex_bytes :: "int list \<Rightarrow> string" where
  "hex_bytes bs = concat (map (\<lambda>b. [lowerhex (nat (b mod 256) div 16), lowerhex (nat (b mod 256))]) bs)"

section \<open>Package net/url: escaping, query strings, value sets\<close>

text \<open>
  The escaping of package \<open>net/url\<close> (as of Go 1.20) depends on the part of the
  URL that is written. In a query component (\<open>url.QueryEscape\<close>) letters, digits
  and the four marks \<open>- _ . ~\<close> are kept, a space becomes \<open>+\<close>, and every other
  byte becomes \<open>%XY\<close> with upper-case hexadecimal digits.
\<close>

datatype encoding =
    encodePath
  | encodeHost
  | encodeZone
  | encodeUserPassword
  | encodeQueryComponent
  | encodeFragment

definition is_alnum :: "char \<Rightarrow> bool" where
  "is_alnum c = (is_lower c \<or> is_upper c \<or> is_digit c)"

definition shouldEscape :: "char \<Rightarrow> encoding \<Rightarrow> bool" where
  "shouldEscape c mode =
     (if is_alnum c then False
      else if (mode = encodeHost \<or> mode = encodeZone) \<and> c \<in> set ''!$&'()*+,;=:[]<>\"'' then False
      else if c \<in> set ''-_.~'' then False
      else if c \<in> set ''$&+,/:;=?@'' \<and> mode = encodePath then c = CHR ''?''
      else if c \<in> set ''$&+,/:;=?@'' \<and> mode = encodeUserPassword then c \<in> set ''@/?:''
      else if c \<in> set ''$&+,/:;=?@'' \<and> mode = encodeQueryComponent then True
      else if c \<in> set ''$&+,/:;=?@'' \<and> mode = encodeFragment then False
      else if mode = encodeFragment \<and> c \<in> set ''!()*'' then False
      else True)"

definition escape_char :: "encoding \<Rightarrow> char \<Rightarrow> string" where
  "escape_char mode c =
     (if c = CHR '' '' \<and> mode = encodeQueryComponent then ''+''
      else if shouldEscape c mode then [CHR ''%'', upperhex (byte_of c div 16), upperhex (byte_of c)]
      else [c])"

definition escape :: "string \<Rightarrow> encoding \<Rightarrow> string" where
  "escape s mode = concat (map (escape_char mode) s)"

definition QueryEscape :: "string \<Rightarrow> string" where
  "QueryEscape s = escape s encodeQueryComponent"

datatype error =
    EscapeError string
  | InvalidHostError string
  | SemicolonError
  | UrlError string
  | InvalidMethod string
  | TransportError string
  | ReadError
  | UnexpectedStatus int
  | MissingCredentials
  | CallbackNotConfirmed
  | MissingParameter
  | Panic string

definition ishex :: "char \<Rightarrow> bool" where
  "ishex c = (is_digit c \<or> (97 \<le> byte_of c \<and> byte_of c \<le> 102) \<or> (65 \<le> byte_of c \<and> byte_of c \<le> 70))"

definition unhex :: "char \<Rightarrow> nat" where
  "unhex c =
     (if is_digit c then byte_of c - 48
      else if 97 \<le> byte_of c \<and> byte_of c \<le> 102 then byte_of c - 97 + 10
      else if 65 \<le> byte_of c \<and> byte_of c \<le> 70 then byte_of c - 65 + 10
      else 0)"

text \<open>\<open>unescape\<close>: \<open>%XY\<close> becomes the byte, and in a query component \<open>+\<close> becomes
  a space. A \<open>%\<close> that is not followed by two hexadecimal digits is an error that
  carries the (at most three) bytes from the \<open>%\<close> on. In a host only bytes from
  128 on (and \<open>%25\<close>) may be escaped, and a byte that would need escaping is an
  error; in a zone identifier an escape may only stand for a byte that could be
  written as it is, or for a space.\<close>

fun unescape :: "string \<Rightarrow> encoding \<Rightarrow> error + string" where
  "unescape [] mode = Inr []"
| "unescape (c # cs) mode =
     (if c = CHR ''%'' then
        (case cs of
           h # l # rest \<Rightarrow>
             (if \<not> (ishex h \<and> ishex l) then Inl (EscapeError (take 3 (c # cs)))
              else if mode = encodeHost \<and> unhex h < 8 \<and> [c, h, l] \<noteq> ''%25''
                then Inl (EscapeError [c, h, l])
              else if mode = encodeZone \<and> [c, h, l] \<noteq> ''%25''
                    \<and> char_of (unhex h * 16 + unhex l) \<noteq> CHR '' ''
                    \<and> shouldEscape (char_of (unhex h * 16 + unhex l)) encodeHost
                then Inl (EscapeError [c, h, l])
              else
                (case unescape rest mode of
                   Inl e \<Rightarrow> Inl e
                 | Inr t \<Rightarrow> Inr (char_of (unhex h * 16 + unhex l) # t)))
         | _ \<Rightarrow> Inl (EscapeError (take 3 (c # cs))))
      else if (mode = encodeHost \<or> mode = encodeZone) \<and> c \<noteq> CHR ''+''
               \<and> byte_of c < 128 \<and> shouldEscape c encodeHost
        then Inl (InvalidHostError [c])
      else
        (case unescape cs mode of
           Inl e \<Rightarrow> Inl e
         | Inr t \<Rightarrow> Inr ((if c = CHR ''+'' \<and> mode = encodeQueryComponent then CHR '' '' else c) # t)))"

definition QueryUnescape :: "string \<Rightarrow> error + string" where
  "QueryUnescape s = unescape s encodeQueryComponent"

text \<open>
  \<open>url.Values\<close> is a Go map from a key to the list of its values. The model is an
  association list with one entry for a key; the order of the entries stands for
  the iteration order of the map, which Go leaves open, and no function of the
  package depends on it (\<open>Encode\<close> sorts the keys).
\<close>

type_synonym Values = "(string \<times> string list) list"

fun Add :: "Values \<Rightarrow> string \<Rightarrow> string \<Rightarrow> Values" where
  "Add [] k v = [(k, [v])]"
| "Add ((k', vs) # m) k v = (if k' = k then (k', vs @ [v]) # m else (k', vs) # Add m k v)"

definition Get :: "Values \<Rightarrow> string \<Rightarrow> string" where
  "Get m k = (case map_of m k of Some (v # vs) \<Rightarrow> v | _ \<Rightarrow> [])"

text \<open>\<open>Values.Encode\<close>: the keys in sorted order; for a key its values in the order
  they were added, each as \<open>key=value\<close> with both sides escaped; the pairs joined
  by \<open>&\<close>.\<close>

definition values_of :: "Values \<Rightarrow> string \<Rightarrow> string list" where
  "values_of m k = (case map_of m k of Some vs \<Rightarrow> vs | None \<Rightarrow> [])"

definition sorted_keys :: "Values \<Rightarrow> string list" where
  "sorted_keys m = sort (remdups (map fst m))"

definition encode_pairs :: "Values \<Rightarrow> (string \<times> string) list" where
  "encode_pairs m =
     concat (map (\<lambda>k. map (\<lambda>v. (QueryEscape k, QueryEscape v)) (values_of m k)) (sorted_keys m))"

definition Encode :: "Values \<Rightarrow> string" where
  "Encode m = Join (map (\<lambda>(k, v). k @ ''='' @ v) (encode_pairs m)) ''&''"

text \<open>\<open>url.ParseQuery\<close>: the text is cut at every \<open>&\<close>; an empty piece is skipped;
  a piece is cut at its first \<open>=\<close> into key and value, both unescaped, and the value
  is added to the key. A piece with a semicolon, or one that cannot be unescaped,
  is left out and the first such error is returned beside the values that were
  parsed.\<close>

definition first_error :: "error option \<Rightarrow> error \<Rightarrow> error option" where
  "first_error err e = (case err of None \<Rightarrow> Some e | Some e0 \<Rightarrow> Some e0)"

fun parse_pieces :: "string list \<Rightarrow> Values \<Rightarrow> error option \<Rightarrow> Values \<times> error option" where
  "parse_pieces [] m err = (m, err)"
| "parse_pieces (p # ps) m err =
     (if CHR '';'' \<in> set p then parse_pieces ps m (Some SemicolonError)
      else if p = [] then parse_pieces ps m err
      else
        (case QueryUnescape (fst (Cut1 p CHR ''='')) of
           Inl e \<Rightarrow> parse_pieces ps m (first_error err e)
         | Inr key \<Rightarrow>
             (case QueryUnescape (snd (Cut1 p CHR ''='')) of
                Inl e \<Rightarrow> parse_pieces ps m (first_error err e)
              | Inr val \<Rightarrow> parse_pieces ps (Add m key val) err)))"

definition ParseQuery :: "string \<Rightarrow> Values \<times> error option" where
  "ParseQuery query = parse_pieces (Split query ''&'') [] None"

section \<open>Package net/url: URLs\<close>

text \<open>
  The \<open>URL\<close> structure of package \<open>net/url\<close> with the fields that \<open>Parse\<close> sets
  and \<open>String\<close> reads. \<open>User\<close> is the user name and, when one is set, the
  password.
\<close>

record URL =
  Scheme :: string
  Opaque :: string
  User :: "(string \<times> string option) option"
  Host :: string
  Path :: string
  RawPath :: string
  OmitHost :: bool
  ForceQuery :: bool
  RawQuery :: string
  Fragment :: string
  RawFragment :: string

definition empty_URL :: URL where
  "empty_URL = \<lparr>Scheme = [], Opaque = [], User = None, Host = [], Path = [], RawPath = [],
     OmitHost = False, ForceQuery = False, RawQuery = [], Fragment = [], RawFragment = []\<rparr>"

text \<open>\<open>strings.Cut(s, sep)\<close> with the flag that tells whether \<open>sep\<close> was found.\<close>

definition Contains1 :: "string \<Rightarrow> char \<Rightarrow> bool" where
  "Contains1 s c = (c \<in> set s)"

definition validEncoded :: "string \<Rightarrow> encoding \<Rightarrow> bool" where
  "validEncoded s mode =
     list_all (\<lambda>c. c \<in> set ''!$&'()*+,;=:@[]%'' \<or> \<not> shouldEscape c mode) s"

text \<open>\<open>getScheme\<close>: the scheme is the text before the first colon when it starts
  with a letter and holds letters, digits, \<open>+\<close>, \<open>-\<close> and \<open>.\<close> only; a colon
  in front is an error. \<open>i\<close> is the index of the byte looked at.\<close>

fun getScheme_from :: "nat \<Rightarrow> string \<Rightarrow> string \<Rightarrow> error + (string \<times> string)" where
  "getScheme_from i rawURL [] = Inr ([], rawURL)"
| "getScheme_from i rawURL (c # cs) =
     (if is_lower c \<or> is_upper c then getScheme_from (i + 1) rawURL cs
      else if is_digit c \<or> c \<in> set ''+-.'' then
        (if i = 0 then Inr ([], rawURL) else getScheme_from (i + 1) rawURL cs)
      else if c = CHR '':'' then
        (if i = 0 then Inl (UrlError ''missing protocol scheme'')
         else Inr (take i rawURL, drop (i + 1) rawURL))
      else Inr ([], rawURL))"

definition getScheme :: "string \<Rightarrow> error + (string \<times> string)" where
  "getScheme rawURL = getScheme_from 0 rawURL rawURL"

definition validOptionalPort :: "string \<Rightarrow> bool" where
  "validOptionalPort port =
     (case port of [] \<Rightarrow> True | c # ds \<Rightarrow> c = CHR '':'' \<and> list_all is_digit ds)"

text \<open>The index of the last occurrence of a byte, as \<open>strings.LastIndex\<close> gives it
  for a text of one byte; \<open>None\<close> stands for the -1 of Go.\<close>

definition LastIndex1 :: "string \<Rightarrow> char \<Rightarrow> nat option" where
  "LastIndex1 s c =
     (if c \<in> set s then Some (length s - 1 - length (takeWhile (\<lambda>x. x \<noteq> c) (rev s))) else None)"

text \<open>The index of the first occurrence of \<open>%25\<close>.\<close>

fun Index_pct25 :: "string \<Rightarrow> nat option" where
  "Index_pct25 [] = None"
| "Index_pct25 (c # cs) =
     (if HasPrefix (c # cs) ''%25'' then Some 0
      else (case Index_pct25 cs of None \<Rightarrow> None | Some i \<Rightarrow> Some (i + 1)))"

definition parseHost :: "string \<Rightarrow> error + string" where
  "parseHost host =
     (if HasPrefix host ''['' then
        (case LastIndex1 host CHR '']'' of
           None \<Rightarrow> Inl (UrlError ''missing ] in host'')
         | Some i \<Rightarrow>
             (if \<not> validOptionalPort (drop (i + 1) host) then Inl (UrlError ''invalid port after host'')
              else
                (case Index_pct25 (take i host) of
                   Some zone \<Rightarrow>
                     (case unescape (take zone host) encodeHost of
                        Inl e \<Rightarrow> Inl e
                      | Inr host1 \<Rightarrow>
                          (case unescape (drop zone (take i host)) encodeZone of
                             Inl e \<Rightarrow> Inl e
                           | Inr host2 \<Rightarrow>
                               (case unescape (drop i host) encodeHost of
                                  Inl e \<Rightarrow> Inl e
                                | Inr host3 \<Rightarrow> Inr (host1 @ host2 @ host3))))
                 | None \<Rightarrow> unescape host encodeHost)))
      else
        (case LastIndex1 host CHR '':'' of
           Some i \<Rightarrow>
             (if \<not> validOptionalPort (drop i host) then Inl (UrlError ''invalid port after host'')
              else unescape host encodeHost)
         | None \<Rightarrow> unescape host encodeHost))"

definition validUserinfo :: "string \<Rightarrow> bool" where
  "validUserinfo s = list_all (\<lambda>c. is_alnum c \<or> c \<in> set ''-._:~!$&'()*+,;=%@'') s"

definition parseAuthority :: "string \<Rightarrow> error + ((string \<times> string option) option \<times> string)" where
  "parseAuthority authority =
     (case LastIndex1 authority CHR ''@'' of
        None \<Rightarrow>
          (case parseHost authority of Inl e \<Rightarrow> Inl e | Inr host \<Rightarrow> Inr (None, host))
      | Some i \<Rightarrow>
          (case parseHost (drop (i + 1) authority) of
             Inl e \<Rightarrow> Inl e
           | Inr host \<Rightarrow>
               (if \<not> validUserinfo (take i authority) then Inl (UrlError ''net/url: invalid userinfo'')
                else if \<not> Contains1 (take i authority) CHR '':'' then
                  (case unescape (take i authority) encodeUserPassword of
                     Inl e \<Rightarrow> Inl e
                   | Inr username \<Rightarrow> Inr (Some (username, None), host))
                else
                  (case unescape (fst (Cut1 (take i authority) CHR '':'')) encodeUserPassword of
                     Inl e \<Rightarrow> Inl e
                   | Inr username \<Rightarrow>
                       (case unescape (snd (Cut1 (take i authority) CHR '':'')) encodeUserPassword of
                          Inl e \<Rightarrow> Inl e
                        | Inr password \<Rightarrow> Inr (Some (username, Some password), host))))))"

definition setPath :: "URL \<Rightarrow> string \<Rightarrow> error + URL" where
  "setPath u p =
     (case unescape p encodePath of
        Inl e \<Rightarrow> Inl e
      | Inr path \<Rightarrow>
          Inr (u\<lparr>Path := path, RawPath := (if p = escape path encodePath then [] else p)\<rparr>))"

definition setFragment :: "URL \<Rightarrow> string \<Rightarrow> error + URL" where
  "setFragment u f =
     (case unescape f encodeFragment of
        Inl e \<Rightarrow> Inl e
      | Inr frag \<Rightarrow>
          Inr (u\<lparr>Fragment := frag, RawFragment := (if f = escape frag encodeFragment then [] else f)\<rparr>))"

definition EscapedPath :: "URL \<Rightarrow> string" where
  "EscapedPath u =
     (if RawPath u \<noteq> [] \<and> validEncoded (RawPath u) encodePath
         \<and> unescape (RawPath u) encodePath = Inr (Path u) then RawPath u
      else if Path u = ''*'' then ''*''
      else escape (Path u) encodePath)"

definition EscapedFragment :: "URL \<Rightarrow> string" where
  "EscapedFragment u =
     (if RawFragment u \<noteq> [] \<and> validEncoded (RawFragment u) encodeFragment
         \<and> unescape (RawFragment u) encodeFragment = Inr (Fragment u) then RawFragment u
      else escape (Fragment u) encodeFragment)"

definition stringContainsCTLByte :: "string \<Rightarrow> bool" where
  "stringContainsCTLByte s = (\<exists>c \<in> set s. byte_of c < 32 \<or> byte_of c = 127)"

definition count_char :: "char \<Rightarrow> string \<Rightarrow> nat" where
  "count_char c s = length (filter (\<lambda>x. x = c) s)"

text \<open>The part of \<open>parse\<close> after the scheme and the query are cut off: \<open>rest\<close> is
  an opaque text, or an authority and a path.\<close>

definition parse_rest :: "URL \<Rightarrow> string \<Rightarrow> error + URL" where
  "parse_rest u rest =
     (if \<not> HasPrefix rest ''/'' \<and> Scheme u \<noteq> [] then Inr (u\<lparr>Opaque := rest\<rparr>)
      else if \<not> HasPrefix rest ''/'' \<and> Contains1 (fst (Cut1 rest CHR ''/'')) CHR '':''
        then Inl (UrlError ''first path segment in URL cannot contain colon'')
      else if (Scheme u \<noteq> [] \<or> \<not> HasPrefix rest ''///'') \<and> HasPrefix rest ''//'' then
        (case parseAuthority (takeWhile (\<lambda>c. c \<noteq> CHR ''/'') (drop 2 rest)) of
           Inl e \<Rightarrow> Inl e
         | Inr (user, host) \<Rightarrow>
             setPath (u\<lparr>User := user, Host := host\<rparr>) (dropWhile (\<lambda>c. c \<noteq> CHR ''/'') (drop 2 rest)))
      else if Scheme u \<noteq> [] \<and> HasPrefix rest ''/'' then setPath (u\<lparr>OmitHost := True\<rparr>) rest
      else setPath u rest)"

definition parse :: "string \<Rightarrow> error + URL" where
  "parse rawURL =
     (if stringContainsCTLByte rawURL then Inl (UrlError ''net/url: invalid control character in URL'')
      else if rawURL = ''*'' then Inr (empty_URL\<lparr>Path := ''*''\<rparr>)
      else
        (case getScheme rawURL of
           Inl e \<Rightarrow> Inl e
         | Inr (scheme, rest) \<Rightarrow>
             (if rest \<noteq> [] \<and> last rest = CHR ''?'' \<and> count_char CHR ''?'' rest = 1
              then parse_rest (empty_URL\<lparr>Scheme := ToLower scheme, ForceQuery := True\<rparr>) (butlast rest)
              else parse_rest (empty_URL\<lparr>Scheme := ToLower scheme, RawQuery := snd (Cut1 rest CHR ''?'')\<rparr>)
                     (fst (Cut1 rest CHR ''?'')))))"

definition Parse :: "string \<Rightarrow> error + URL" where
  "Parse rawURL =
     (case parse (fst (Cut1 rawURL CHR ''#'')) of
        Inl e \<Rightarrow> Inl e
      | Inr u \<Rightarrow>
          (if snd (Cut1 rawURL CHR ''#'') = [] then Inr u
           else setFragment u (snd (Cut1 rawURL CHR ''#''))))"

definition userinfo_String :: "(string \<times> string option) \<Rightarrow> string" where
  "userinfo_String ui =
     (case ui of
        (username, None) \<Rightarrow> escape username encodeUserPassword
      | (username, Some password) \<Rightarrow>
          escape username encodeUserPassword @ '':'' @ escape password encodeUserPassword)"

text \<open>\<open>URL.String\<close>, written as the builder of the Go function fills its buffer:
  scheme, then the opaque text or authority and path, then query and fragment.\<close>

definition authority_String :: "URL \<Rightarrow> string" where
  "authority_String u =
     (if Scheme u \<noteq> [] \<or> Host u \<noteq> [] \<or> User u \<noteq> None then
        (if OmitHost u \<and> Host u = [] \<and> User u = None then []
         else
           (if Host u \<noteq> [] \<or> Path u \<noteq> [] \<or> User u \<noteq> None then ''//'' else [])
           @ (case User u of None \<Rightarrow> [] | Some ui \<Rightarrow> userinfo_String ui @ ''@'')
           @ (if Host u \<noteq> [] then escape (Host u) encodeHost else []))
      else [])"

definition path_String :: "URL \<Rightarrow> string \<Rightarrow> string" where
  "path_String u buf =
     (if EscapedPath u \<noteq> [] \<and> hd (EscapedPath u) \<noteq> CHR ''/'' \<and> Host u \<noteq> [] then ''/''
      else if buf = [] \<and> Contains1 (fst (Cut1 (EscapedPath u) CHR ''/'')) CHR '':'' then ''./''
      else [])
     @ EscapedPath u"

definition url_String :: "URL \<Rightarrow> string" where
  "url_String u =
     (if Scheme u \<noteq> [] then Scheme u @ '':'' else [])
     @ (if Opaque u \<noteq> [] then Opaque u
        else authority_String u
             @ path_String u ((if Scheme u \<noteq> [] then Scheme u @ '':'' else []) @ authority_String u))
     @ (if ForceQuery u \<or> RawQuery u \<noteq> [] then ''?'' @ RawQuery u else [])
     @ (if Fragment u \<noteq> [] then ''#'' @ EscapedFragment u else [])"

text \<open>\<open>URL.Query\<close>: the parsed query string; what cannot be parsed is left out.\<close>

definition Query :: "URL \<Rightarrow> Values" where
  "Query u = fst (ParseQuery (RawQuery u))"

section \<open>Packages crypto/sha1, crypto/md5, crypto/hmac and encoding/base64\<close>

text \<open>
  Bytes and 32-bit words are integers, with the wrap-around of the machine
  arithmetic written out (\<open>mod 2 ^ 32\<close>, as the number 4294967296). The hash
  functions follow RFC 3174 (SHA-1) and RFC 1321 (MD5), HMAC follows RFC 2104, as
  the Go packages do.
\<close>

type_synonym byte = int
type_synonym u32 = int

definition bytes_of :: "string \<Rightarrow> byte list" where
  "bytes_of s = map of_char s"

definition add32 :: "u32 \<Rightarrow> u32 \<Rightarrow> u32" where
  "add32 x y = (x + y) mod 4294967296"

definition rotl :: "nat \<Rightarrow> u32 \<Rightarrow> u32" where
  "rotl n x = (x * 2 ^ n) mod 4294967296 + x div 2 ^ (32 - n)"

definition not32 :: "u32 \<Rightarrow> u32" where
  "not32 x = 4294967295 - x"

text \<open>Words from bytes and back, big-endian (SHA-1) and little-endian (MD5).\<close>

fun be_words :: "byte list \<Rightarrow> u32 list" where
  "be_words (a # b # c # d # rest) = (((a * 256 + b) * 256 + c) * 256 + d) # be_words rest"
| "be_words _ = []"

fun le_words :: "byte list \<Rightarrow> u32 list" where
  "le_words (a # b # c # d # rest) = (((d * 256 + c) * 256 + b) * 256 + a) # le_words rest"
| "le_words _ = []"

definition be_bytes :: "u32 \<Rightarrow> byte list" where
  "be_bytes x = [x div 16777216 mod 256, x div 65536 mod 256, x div 256 mod 256, x mod 256]"

definition le_bytes :: "u32 \<Rightarrow> byte list" where
  "le_bytes x = [x mod 256, x div 256 mod 256, x div 65536 mod 256, x div 16777216 mod 256]"

text \<open>The padding of both hash functions: a byte 128, zero bytes up to 56 modulo
  64, and the length of the message in bits as 8 bytes.\<close>

function zeros :: "nat \<Rightarrow> byte list" where
  "zeros n = (if n = 0 then [] else 0 # zeros (n - 1))"
  by pat_completeness auto
termination
  by (relation "measure (\<lambda>n. n)") auto

declare zeros.simps [simp del]

definition pad_zeros :: "nat \<Rightarrow> byte list" where
  "pad_zeros len = zeros ((119 - len mod 64) mod 64)"

definition sha1_pad :: "byte list \<Rightarrow> byte list" where
  "sha1_pad m =
     m @ [128] @ pad_zeros (length m)
       @ be_bytes (8 * int (length m) div 4294967296 mod 4294967296)
       @ be_bytes (8 * int (length m) mod 4294967296)"

definition md5_pad :: "byte list \<Rightarrow> byte list" where
  "md5_pad m =
     m @ [128] @ pad_zeros (length m)
       @ le_bytes (8 * int (length m) mod 4294967296)
       @ le_bytes (8 * int (length m) div 4294967296 mod 4294967296)"

definition sha1_f :: "nat \<Rightarrow> u32 \<Rightarrow> u32 \<Rightarrow> u32 \<Rightarrow> u32" where
  "sha1_f t b c d =
     (if t < 20 then (b AND c) OR (not32 b AND d)
      else if t < 40 then b XOR c XOR d
      else if t < 60 then (b AND c) OR (b AND d) OR (c AND d)
      else b XOR c XOR d)"

definition sha1_k :: "nat \<Rightarrow> u32" where
  "sha1_k t =
     (if t < 20 then 0x5A827999 else if t < 40 then 0x6ED9EBA1
      else if t < 60 then 0x8F1BBCDC else 0xCA62C1D6)"

type_synonym sha1_state = "u32 \<times> u32 \<times> u32 \<times> u32 \<times> u32"

text \<open>The 80 rounds over one block. \<open>w\<close> holds the last 16 words of the message
  schedule, the oldest first.\<close>

function sha1_rounds :: "nat \<Rightarrow> u32 list \<Rightarrow> sha1_state \<Rightarrow> sha1_state" where
  "sha1_rounds t w (a, b, c, d, e) =
     (if 80 \<le> t then (a, b, c, d, e)
      else sha1_rounds (t + 1)
             (tl w @ [rotl 1 (w ! 13 XOR w ! 8 XOR w ! 2 XOR w ! 0)])
             (add32 (add32 (add32 (add32 (rotl 5 a) (sha1_f t b c d)) e) (sha1_k t)) (hd w),
              a, rotl 30 b, c, d))"
  by pat_completeness auto
termination
  by (relation "measure (\<lambda>(t, w, s). 80 - t)") auto

declare sha1_rounds.simps [simp del]

fun sha1_block :: "sha1_state \<Rightarrow> byte list \<Rightarrow> sha1_state" where
  "sha1_block (h0, h1, h2, h3, h4) blk =
     (case sha1_rounds 0 (be_words blk) (h0, h1, h2, h3, h4) of
        (a, b, c, d, e) \<Rightarrow> (add32 h0 a, add32 h1 b, add32 h2 c, add32 h3 d, add32 h4 e))"

function sha1_blocks :: "sha1_state \<Rightarrow> byte list \<Rightarrow> sha1_state" where
  "sha1_blocks h p =
     (if length p < 64 then h else sha1_blocks (sha1_block h (take 64 p)) (drop 64 p))"
  by pat_completeness auto
termination
  by (relation "measure (\<lambda>(h, p). length p)") auto

declare sha1_blocks.simps [simp del]

definition sha1 :: "byte list \<Rightarrow> byte list" where
  "sha1 m =
     (case sha1_blocks (0x67452301, 0xEFCDAB89, 0x98BADCFE, 0x10325476, 0xC3D2E1F0) (sha1_pad m) of
        (a, b, c, d, e) \<Rightarrow> be_bytes a @ be_bytes b @ be_bytes c @ be_bytes d @ be_bytes e)"

text \<open>HMAC with SHA-1 (block size 64): a key longer than a block is hashed first.\<close>

definition hmac_key :: "byte list \<Rightarrow> byte list" where
  "hmac_key key =
     (if 64 < length key then sha1 key @ zeros (64 - 20) else key @ zeros (64 - length key))"

definition hmac_sha1 :: "byte list \<Rightarrow> byte list \<Rightarrow> byte list" where
  "hmac_sha1 key msg =
     sha1 (map (\<lambda>b. b XOR 0x5C) (hmac_key key) @ sha1 (map (\<lambda>b. b XOR 0x36) (hmac_key key) @ msg))"

text \<open>MD5.\<close>

definition md5_K :: "u32 list" where
  "md5_K =
     [0xd76aa478, 0xe8c7b756, 0x242070db, 0xc1bdceee, 0xf57c0faf, 0x4787c62a, 0xa8304613, 0xfd469501,
      0x698098d8, 0x8b44f7af, 0xffff5bb1, 0x895cd7be, 0x6b901122, 0xfd987193, 0xa679438e, 0x49b40821,
      0xf61e2562, 0xc040b340, 0x265e5a51, 0xe9b6c7aa, 0xd62f105d, 0x02441453, 0xd8a1e681, 0xe7d3fbc8,
      0x21e1cde6, 0xc33707d6, 0xf4d50d87, 0x455a14ed, 0xa9e3e905, 0xfcefa3f8, 0x676f02d9, 0x8d2a4c8a,
      0xfffa3942, 0x8771f681, 0x6d9d6122, 0xfde5380c, 0xa4beea44, 0x4bdecfa9, 0xf6bb4b60, 0xbebfbc70,
      0x289b7ec6, 0xeaa127fa, 0xd4ef3085, 0x04881d05, 0xd9d4d039, 0xe6db99e5, 0x1fa27cf8, 0xc4ac5665,
      0xf4292244, 0x432aff97, 0xab9423a7, 0xfc93a039, 0x655b59c3, 0x8f0ccc92, 0xffeff47d, 0x85845dd1,
      0x6fa87e4f, 0xfe2ce6e0, 0xa3014314, 0x4e0811a1, 0xf7537e82, 0xbd3af235, 0x2ad7d2bb, 0xeb86d391]"

definition md5_s :: "nat list" where
  "md5_s =
     [7, 12, 17, 22, 7, 12, 17, 22, 7, 12, 17, 22, 7, 12, 17, 22,
      5, 9, 14, 20, 5, 9, 14, 20, 5, 9, 14, 20, 5, 9, 14, 20,
      4, 11, 16, 23, 4, 11, 16, 23, 4, 11, 16, 23, 4, 11, 16, 23,
      6, 10, 15, 21, 6, 10, 15, 21, 6, 10, 15, 21, 6, 10, 15, 21]"

definition md5_f :: "nat \<Rightarrow> u32 \<Rightarrow> u32 \<Rightarrow> u32 \<Rightarrow> u32" where
  "md5_f i b c d =
     (if i < 16 then (b AND c) OR (not32 b AND d)
      else if i < 32 then (d AND b) OR (not32 d AND c)
      else if i < 48 then b XOR c XOR d
      else c XOR (b OR not32 d))"

definition md5_g :: "nat \<Rightarrow> nat" where
  "md5_g i =
     (if i < 16 then i
      else if i < 32 then (5 * i + 1) mod 16
      else if i < 48 then (3 * i + 5) mod 16
      else (7 * i) mod 16)"

type_synonym md5_state = "u32 \<times> u32 \<times> u32 \<times> u32"

function md5_rounds :: "nat \<Rightarrow> u32 list \<Rightarrow> md5_state \<Rightarrow> md5_state" where
  "md5_rounds i m (a, b, c, d) =
     (if 64 \<le> i then (a, b, c, d)
      else md5_rounds (i + 1) m
             (d,
              add32 b (rotl (md5_s ! i) (add32 (add32 (add32 (md5_f i b c d) a) (md5_K ! i)) (m ! md5_g i))),
              b, c))"
  by pat_completeness auto
termination
  by (relation "measure (\<lambda>(i, m, s). 64 - i)") auto

declare md5_rounds.simps [simp del]

fun md5_block :: "md5_state \<Rightarrow> byte list \<Rightarrow> md5_state" where
  "md5_block (a0, b0, c0, d0) blk =
     (case md5_rounds 0 (le_words blk) (a0, b0, c0, d0) of
        (a, b, c, d) \<Rightarrow> (add32 a0 a, add32 b0 b, add32 c0 c, add32 d0 d))"

function md5_blocks :: "md5_state \<Rightarrow> byte list \<Rightarrow> md5_state" where
  "md5_blocks h p =
     (if length p < 64 then h else md5_blocks (md5_block h (take 64 p)) (drop 64 p))"
  by pat_completeness auto
termination
  by (relation "measure (\<lambda>(h, p). length p)") auto

declare md5_blocks.simps [simp del]

definition md5 :: "byte list \<Rightarrow> byte list" where
  "md5 m =
     (case md5_blocks (0x67452301, 0xEFCDAB89, 0x98BADCFE, 0x10325476) (md5_pad m) of
        (a, b, c, d) \<Rightarrow> le_bytes a @ le_bytes b @ le_bytes c @ le_bytes d)"

text \<open>\<open>base64.StdEncoding.EncodeToString\<close>: three bytes become four characters of
  the standard alphabet; a last group of one or two bytes is padded with \<open>=\<close>.\<close>

definition b64_char :: "int \<Rightarrow> char" where
  "b64_char n =
     ''ABCDEFGHIJKLMNOPQRSTUVWXYZabcdefghijklmnopqrstuvwxyz0123456789+/'' ! nat (n mod 64)"

fun base64 :: "byte list \<Rightarrow> string" where
  "base64 (a # b # c # rest) =
     [b64_char (a div 4), b64_char (a mod 4 * 16 + b div 16),
      b64_char (b mod 16 * 4 + c div 64), b64_char (c mod 64)] @ base64 rest"
| "base64 [a, b] =
     [b64_char (a div 4), b64_char (a mod 4 * 16 + b div 16), b64_char (b mod 16 * 4), CHR ''='']"
| "base64 [a] = [b64_char (a div 4), b64_char (a mod 4 * 16), CHR ''='', CHR ''='']"
| "base64 [] = []"

section \<open>Package net/http: requests, headers, bodies\<close>

text \<open>
  A request holds its header map and its body by reference: cloning a request
  copies the references, and a function that is handed a request can change the
  objects behind them. The store maps a reference to the header map or to the
  reader it stands for; \<open>next_ref\<close> is the first reference not yet given out.
  A reader is the text that is left to read, or a reader whose \<open>Read\<close> fails.
  Header keys are written in their canonical form (\<open>Content-Type\<close>,
  \<open>Authorization\<close>), so that a header map is a value set as \<open>url.Values\<close> is.
\<close>

datatype reader = Reader string | BrokenReader

record store =
  headers :: "nat \<Rightarrow> Values"
  readers :: "nat \<Rightarrow> reader"
  next_ref :: nat

definition empty_store :: store where
  "empty_store = \<lparr>headers = (\<lambda>r. []), readers = (\<lambda>r. Reader []), next_ref = 0\<rparr>"

record Request =
  Method :: string
  URL :: URL
  Header :: nat
  Body :: "nat option"

record Response =
  StatusCode :: int
  ResponseBody :: reader

definition new_header :: "store \<Rightarrow> Values \<Rightarrow> store \<times> nat" where
  "new_header st h =
     (st\<lparr>headers := (headers st)(next_ref st := h), next_ref := next_ref st + 1\<rparr>, next_ref st)"

definition new_reader :: "store \<Rightarrow> string \<Rightarrow> store \<times> nat" where
  "new_reader st b =
     (st\<lparr>readers := (readers st)(next_ref st := Reader b), next_ref := next_ref st + 1\<rparr>, next_ref st)"

definition Header_Get :: "store \<Rightarrow> nat \<Rightarrow> string \<Rightarrow> string" where
  "Header_Get st h key = Get (headers st h) key"

definition Header_Add :: "store \<Rightarrow> nat \<Rightarrow> string \<Rightarrow> string \<Rightarrow> store" where
  "Header_Add st h key v = st\<lparr>headers := (headers st)(h := Add (headers st h) key v)\<rparr>"

text \<open>\<open>ioutil.ReadAll\<close>: all that is left of the reader, which is then at its end.\<close>

definition read_reader :: "reader \<Rightarrow> error + string" where
  "read_reader r = (case r of Reader b \<Rightarrow> Inr b | BrokenReader \<Rightarrow> Inl ReadError)"

definition ReadAll :: "store \<Rightarrow> nat \<Rightarrow> store \<times> (error + string)" where
  "ReadAll st r =
     (case readers st r of
        Reader b \<Rightarrow> (st\<lparr>readers := (readers st)(r := Reader [])\<rparr>, Inr b)
      | BrokenReader \<Rightarrow> (st, Inl ReadError))"

text \<open>\<open>http.NewRequest\<close> with no body: the method must be a token, the URL must
  parse; an empty port is cut off the host.\<close>

definition is_token_char :: "char \<Rightarrow> bool" where
  "is_token_char c = (is_alnum c \<or> c \<in> set ''!#$%&'*+-.^_`|~'')"

definition validMethod :: "string \<Rightarrow> bool" where
  "validMethod m = (m \<noteq> [] \<and> list_all is_token_char m)"

definition hasPort :: "string \<Rightarrow> bool" where
  "hasPort h =
     (case LastIndex1 h CHR '':'' of
        None \<Rightarrow> False
      | Some i \<Rightarrow> (case LastIndex1 h CHR '']'' of None \<Rightarrow> True | Some j \<Rightarrow> j < i))"

definition removeEmptyPort :: "string \<Rightarrow> string" where
  "removeEmptyPort h = (if hasPort h \<and> h \<noteq> [] \<and> last h = CHR '':'' then butlast h else h)"

definition NewRequest :: "store \<Rightarrow> string \<Rightarrow> string \<Rightarrow> store \<times> (error + Request)" where
  "NewRequest st method rawurl =
     (if \<not> validMethod (if method = [] then ''GET'' else method) then (st, Inl (InvalidMethod method))
      else
        (case Parse rawurl of
           Inl e \<Rightarrow> (st, Inl e)
         | Inr u \<Rightarrow>
             (case new_header st [] of
                (st', h) \<Rightarrow>
                  (st', Inr \<lparr>Method = (if method = [] then ''GET'' else method),
                             URL = u\<lparr>Host := removeEmptyPort (Host u)\<rparr>, Header = h, Body = None\<rparr>))))"

section \<open>Package oauth1\<close>

record Endpoint =
  RequestTokenURL :: string
  AuthorizeURL :: string
  AccessTokenURL :: string

record Config =
  ConsumerKey :: string
  ConsumerSecret :: string
  CallbackURL :: string
  Endpoint :: Endpoint

text \<open>\<open>Signer\<close>: the nonce and the time stamp, the latter as the Unix seconds that
  \<open>Base\<close> reads from it.\<close>

record Signer =
  Nonce :: string
  Timestamp :: int

text \<open>What a call reads from its environment: the clock and the random number
  that \<open>nonce\<close> reads, and the clock that the signer's time stamp reads.\<close>

record Env =
  NonceUnix :: int
  NonceRand :: int
  SignUnix :: int

definition normalizeSpace :: "string \<Rightarrow> string" where
  "normalizeSpace s = Replace1 s CHR ''+'' ''%20''"

text \<open>\<open>formatOAuthHeader\<close>: the encoded parameter string is cut at \<open>&\<close>, every
  piece is cut at \<open>=\<close> and written as \<open>key="value"\<close> from its first two parts
  (a piece with no \<open>=\<close> has no second part: the index is out of range and the
  function panics), and the pieces are joined by a comma and a space.\<close>

definition dquote :: string where
  "dquote = [CHR 0x22]"

fun format_pairs :: "string list \<Rightarrow> error + string list" where
  "format_pairs [] = Inr []"
| "format_pairs (p # ps) =
     (case Split p ''='' of
        k # v # others \<Rightarrow>
          (case format_pairs ps of
             Inl e \<Rightarrow> Inl e
           | Inr qs \<Rightarrow> Inr ((k @ ''='' @ dquote @ v @ dquote) # qs))
      | _ \<Rightarrow> Inl (Panic ''index out of range''))"

definition formatOAuthHeader :: "Values \<Rightarrow> error + string" where
  "formatOAuthHeader params =
     (case format_pairs (Split (normalizeSpace (Encode params)) ''&'') of
        Inl e \<Rightarrow> Inl e
      | Inr pairs \<Rightarrow> Inr (''OAuth '' @ Join pairs '', ''))"

text \<open>\<open>prepareParams\<close>. The loop over the query of the URL adds every value,
  escaped, to its key. A form body is read to its end and parsed, and the request
  gets a new reader over the same bytes. The result is the store, the request as
  the function leaves it, the parameters and the error.\<close>

definition add_query_values :: "Values \<Rightarrow> Values \<Rightarrow> Values" where
  "add_query_values params q =
     foldl (\<lambda>p (key, vs). foldl (\<lambda>p v. Add p key (QueryEscape v)) p vs) params q"

definition add_oauth_params :: "Values \<Rightarrow> Request \<Rightarrow> string \<Rightarrow> Values" where
  "add_oauth_params params r consumerKey =
     Add (Add (Add (add_query_values params (Query (URL r)))
       ''oauth_consumer_key'' consumerKey) ''oauth_signature_method'' ''HMAC-SHA1'') ''oauth_version'' ''1.0''"

definition prepareParams :: "store \<Rightarrow> Request \<Rightarrow> string \<Rightarrow> store \<times> Request \<times> Values \<times> error option" where
  "prepareParams st r consumerKey =
     (case Body r of
        None \<Rightarrow> (st, r, add_oauth_params [] r consumerKey, None)
      | Some body \<Rightarrow>
          (if Header_Get st (Header r) ''Content-Type'' = ''application/x-www-form-urlencoded'' then
             (case ReadAll st body of
                (st1, Inl e) \<Rightarrow> (st1, r, [], Some e)
              | (st1, Inr b) \<Rightarrow>
                  (case ParseQuery b of
                     (params, Some e) \<Rightarrow> (st1, r, params, Some e)
                   | (params, None) \<Rightarrow>
                       (case new_reader st1 b of
                          (st2, body') \<Rightarrow>
                            (st2, r\<lparr>Body := Some body'\<rparr>,
                             add_oauth_params params (r\<lparr>Body := Some body'\<rparr>) consumerKey, None))))
           else (st, r, add_oauth_params [] r consumerKey, None)))"

text \<open>\<open>Signer.Base\<close>. The function adds nonce and time stamp to the parameter map
  it is given, which is the caller's map: the result holds the map as the call
  leaves it. The error of \<open>url.Parse\<close> is dropped, and where there is one the URL is
  nil and the assignment to its field panics.\<close>

definition Base :: "Signer \<Rightarrow> Request \<Rightarrow> Values \<Rightarrow> (error + string) \<times> Values" where
  "Base s req params =
     (case Parse (url_String (URL req)) of
        Inl e \<Rightarrow>
          (Inl (Panic ''nil pointer dereference''),
           Add (Add params ''oauth_nonce'' (Nonce s)) ''oauth_timestamp'' (FormatInt (Timestamp s)))
      | Inr baseURL \<Rightarrow>
          (Inr (Join [ToUpper (Method req),
                      QueryEscape (url_String (baseURL\<lparr>RawQuery := []\<rparr>)),
                      QueryEscape (normalizeSpace (Encode
                        (Add (Add params ''oauth_nonce'' (Nonce s)) ''oauth_timestamp'' (FormatInt (Timestamp s)))))]
                 ''&''),
           Add (Add params ''oauth_nonce'' (Nonce s)) ''oauth_timestamp'' (FormatInt (Timestamp s))))"

text \<open>\<open>Signer.Sign\<close>: the key is the two secrets joined by \<open>&\<close>; the signature is
  the base64 text of the HMAC-SHA1 digest of the base string. (Writing to the hash
  never fails.)\<close>

definition signing_key :: "string \<Rightarrow> string \<Rightarrow> string" where
  "signing_key consumerSecret tokenSecret = Join [consumerSecret, tokenSecret] ''&''"

definition Sign :: "Signer \<Rightarrow> string \<Rightarrow> string \<Rightarrow> Request \<Rightarrow> Values \<Rightarrow> (error + string) \<times> Values" where
  "Sign s consumerSecret tokenSecret req params =
     (case Base s req params of
        (Inl e, params') \<Rightarrow> (Inl e, params')
      | (Inr base, params') \<Rightarrow>
          (Inr (base64 (hmac_sha1 (bytes_of (signing_key consumerSecret tokenSecret)) (bytes_of base))),
           params'))"

definition nonce :: "int \<Rightarrow> int \<Rightarrow> string" where
  "nonce now r = hex_bytes (md5 (bytes_of (FormatInt now) @ bytes_of (FormatInt r)))"

definition new_signer :: "Env \<Rightarrow> Signer" where
  "new_signer env = \<lparr>Nonce = nonce (NonceUnix env) (NonceRand env), Timestamp = SignUnix env\<rparr>"

text \<open>
  \<open>Config.RequestToken\<close>. The first half (lines 76 to 92) builds and signs the
  request, with the empty token secret; the client \<open>Do\<close> of the context sends it;
  the second half (lines 101 to 121) reads the response. The result is the triple
  that the Go function returns: token, secret and error.
\<close>

definition RequestToken_request :: "Config \<Rightarrow> Env \<Rightarrow> error + (store \<times> Request)" where
  "RequestToken_request c env =
     (case NewRequest empty_store ''POST'' (RequestTokenURL (Endpoint c)) of
        (st, Inl e) \<Rightarrow> Inl e
      | (st, Inr req) \<Rightarrow>
          (case prepareParams st req (ConsumerKey c) of
             (st1, req1, params, Some e) \<Rightarrow> Inl e
           | (st1, req1, params, None) \<Rightarrow>
               (case Sign (new_signer env) (ConsumerSecret c) [] req1
                       (Add params ''oauth_callback'' (CallbackURL c)) of
                  (Inl e, params') \<Rightarrow> Inl e
                | (Inr signature, params') \<Rightarrow>
                    (case formatOAuthHeader (Add params' ''oauth_signature'' signature) of
                       Inl e \<Rightarrow> Inl e
                     | Inr h \<Rightarrow> Inr (Header_Add st1 (Header req1) ''Authorization'' h, req1)))))"

definition RequestToken_response :: "Response \<Rightarrow> string \<times> string \<times> error option" where
  "RequestToken_response res =
     (if StatusCode res \<noteq> 200 \<and> StatusCode res \<noteq> 201
      then ([], [], Some (UnexpectedStatus (StatusCode res)))
      else
        (case read_reader (ResponseBody res) of
           Inl e \<Rightarrow> ([], [], Some e)
         | Inr body \<Rightarrow>
             (case ParseQuery body of
                (vals, Some e) \<Rightarrow> ([], [], Some e)
              | (vals, None) \<Rightarrow>
                  (if Get vals ''oauth_token'' = [] \<or> Get vals ''oauth_token_secret'' = []
                   then ([], [], Some MissingCredentials)
                   else if Get vals ''oauth_callback_confirmed'' \<noteq> ''true''
                   then ([], [], Some CallbackNotConfirmed)
                   else (Get vals ''oauth_token'', Get vals ''oauth_token_secret'', None)))))"

definition RequestToken :: "Config \<Rightarrow> Env \<Rightarrow> (store \<Rightarrow> Request \<Rightarrow> error + Response) \<Rightarrow> string \<times> string \<times> error option" where
  "RequestToken c env Do =
     (case RequestToken_request c env of
        Inl e \<Rightarrow> ([], [], Some e)
      | Inr (st, req) \<Rightarrow>
          (case Do st req of
             Inl e \<Rightarrow> ([], [], Some e)
           | Inr res \<Rightarrow> RequestToken_response res))"

text \<open>\<open>Config.AccessToken\<close>, in the same two halves (lines 163 to 180 and 189 to
  206). The call of \<open>Sign\<close> on line 175 passes the empty string as the token
  secret; the parameter \<open>requestSecret\<close> is not used.\<close>

definition AccessToken_request :: "Config \<Rightarrow> Env \<Rightarrow> string \<Rightarrow> string \<Rightarrow> string \<Rightarrow> error + (store \<times> Request)" where
  "AccessToken_request c env requestToken requestSecret verifier =
     (case NewRequest empty_store ''POST'' (AccessTokenURL (Endpoint c)) of
        (st, Inl e) \<Rightarrow> Inl e
      | (st, Inr req) \<Rightarrow>
          (case prepareParams st req (ConsumerKey c) of
             (st1, req1, params, Some e) \<Rightarrow> Inl e
           | (st1, req1, params, None) \<Rightarrow>
               (case Sign (new_signer env) (ConsumerSecret c) [] req1
                       (Add (Add params ''oauth_token'' requestToken) ''oauth_verifier'' verifier) of
                  (Inl e, params') \<Rightarrow> Inl e
                | (Inr signature, params') \<Rightarrow>
                    (case formatOAuthHeader (Add params' ''oauth_signature'' signature) of
                       Inl e \<Rightarrow> Inl e
                     | Inr h \<Rightarrow> Inr (Header_Add st1 (Header req1) ''Authorization'' h, req1)))))"

definition AccessToken_response :: "Response \<Rightarrow> string \<times> string \<times> error option" where
  "AccessToken_response res =
     (if StatusCode res \<noteq> 200 \<and> StatusCode res \<noteq> 201
      then ([], [], Some (UnexpectedStatus (StatusCode res)))
      else
        (case read_reader (ResponseBody res) of
           Inl e \<Rightarrow> ([], [], Some e)
         | Inr body \<Rightarrow>
             (case ParseQuery body of
                (vals, Some e) \<Rightarrow> ([], [], Some e)
              | (vals, None) \<Rightarrow>
                  (if Get vals ''oauth_token'' = [] \<or> Get vals ''oauth_token_secret'' = []
                   then ([], [], Some MissingCredentials)
                   else (Get vals ''oauth_token'', Get vals ''oauth_token_secret'', None)))))"

definition AccessToken :: "Config \<Rightarrow> Env \<Rightarrow> (store \<Rightarrow> Request \<Rightarrow> error + Response) \<Rightarrow> string \<Rightarrow> string \<Rightarrow> string \<Rightarrow> string \<times> string \<times> error option" where
  "AccessToken c env Do requestToken requestSecret verifier =
     (case AccessToken_request c env requestToken requestSecret verifier of
        Inl e \<Rightarrow> ([], [], Some e)
      | Inr (st, req) \<Rightarrow>
          (case Do st req of
             Inl e \<Rightarrow> ([], [], Some e)
           | Inr res \<Rightarrow> AccessToken_response res))"

text \<open>
  The transport (file \<open>transport.go\<close>). \<open>cloneRequest\<close> copies the structure and
  gives the copy a new header map with the entries of the old one; the body
  reference is copied as it is. \<open>RoundTrip\<close> clones the request, prepares the
  parameters and signs \<^emph>\<open>with the request it was given\<close>, adds the header to the
  clone and hands the clone to the base transport. The result holds the store and
  the caller's request as the call leaves them, and what the base transport returns
  for the store and the clone it is given.
\<close>

record Transport =
  consumerKey :: string
  consumerSecret :: string
  accessToken :: string
  accessSecret :: string

definition cloneRequest :: "store \<Rightarrow> Request \<Rightarrow> store \<times> Request" where
  "cloneRequest st req =
     (case new_header st (headers st (Header req)) of (st', h) \<Rightarrow> (st', req\<lparr>Header := h\<rparr>))"

definition RoundTrip :: "Transport \<Rightarrow> Env \<Rightarrow> (store \<Rightarrow> Request \<Rightarrow> 'r) \<Rightarrow> store \<Rightarrow> Request \<Rightarrow> store \<times> Request \<times> (error + 'r)" where
  "RoundTrip t env base st req =
     (case cloneRequest st req of
        (st1, req2) \<Rightarrow>
          (case prepareParams st1 req (consumerKey t) of
             (st2, req', params, Some e) \<Rightarrow> (st2, req', Inl e)
           | (st2, req', params, None) \<Rightarrow>
               (case Sign (new_signer env) (consumerSecret t) (accessSecret t) req'
                       (Add params ''oauth_token'' (accessToken t)) of
                  (Inl e, params') \<Rightarrow> (st2, req', Inl e)
                | (Inr signature, params') \<Rightarrow>
                    (case formatOAuthHeader (Add params' ''oauth_signature'' signature) of
                       Inl e \<Rightarrow> (st2, req', Inl e)
                     | Inr h \<Rightarrow>
                         (Header_Add st2 (Header req2) ''Authorization'' h, req',
                          Inr (base (Header_Add st2 (Header req2) ''Authorization'' h) req2))))))"

text \<open>
  \<open>parseOAuthParamsOrFail\<close>, the parser of the tests. A failed assertion marks the
  test as failed and the function goes on: the result holds that mark beside the
  map. Slicing a header of fewer than six bytes, and reading the second part of a
  piece that has none, panic.
\<close>

fun parse_header_pairs :: "string list \<Rightarrow> bool \<Rightarrow> (string \<rightharpoonup> string) \<Rightarrow> error + (bool \<times> (string \<rightharpoonup> string))" where
  "parse_header_pairs [] failed params = Inr (failed, params)"
| "parse_header_pairs (pairStr # ps) failed params =
     (case Split pairStr ''='' of
        k # v # others \<Rightarrow>
          parse_header_pairs ps (failed \<or> others \<noteq> []) (params(k \<mapsto> Replace1 v (CHR 0x22) []))
      | _ \<Rightarrow> Inl (Panic ''index out of range''))"

definition parseOAuthParamsOrFail :: "string \<Rightarrow> error + (bool \<times> (string \<rightharpoonup> string))" where
  "parseOAuthParamsOrFail authHeader =
     (if length authHeader < 6 then Inl (Panic ''slice bounds out of range'')
      else parse_header_pairs (Split (drop 6 authHeader) '', '') (\<not> HasPrefix authHeader ''OAuth'') Map.empty)"

section \<open>Properties of the library functions\<close>

lemma length_le_bytes: "length (le_bytes x) = 4"
  by (simp add: le_bytes_def)

lemma length_md5: "length (md5 m) = 16"
  by (simp add: md5_def length_le_bytes split: prod.splits)

lemma length_hex_bytes: "length (hex_bytes bs) = 2 * length bs"
  by (induction bs) (simp_all add: hex_bytes_def)

lemma lowerhex_in: "lowerhex d \<in> set ''0123456789abcdef''"
  unfolding lowerhex_def by (rule nth_mem) simp

lemma hex_bytes_chars: "list_all (\<lambda>c. c \<in> set ''0123456789abcdef'') (hex_bytes bs)"
  by (induction bs) (simp_all add: hex_bytes_def lowerhex_in del: set_simps)

lemma hexdigit_alnum: "c \<in> set ''0123456789abcdef'' \<Longrightarrow> is_alnum c"
  by (auto simp: is_alnum_def is_lower_def is_digit_def byte_of_def)

lemma escape_char_alnum: "is_alnum c \<Longrightarrow> escape_char mode c = [c]"
  by (auto simp: escape_char_def shouldEscape_def is_alnum_def is_lower_def is_upper_def is_digit_def byte_of_def)

lemma escape_alnum: "list_all is_alnum s \<Longrightarrow> escape s mode = s"
  by (induction s) (simp_all add: escape_def escape_char_alnum)

lemma alnum_not_plus: "is_alnum c \<Longrightarrow> c \<noteq> CHR ''+''"
  by (auto simp: is_alnum_def is_lower_def is_upper_def is_digit_def byte_of_def)

lemma normalizeSpace_alnum: "list_all is_alnum s \<Longrightarrow> normalizeSpace s = s"
  by (induction s) (auto simp: normalizeSpace_def Replace1_def alnum_not_plus)

lemma bytes_of_append: "bytes_of (a @ b) = bytes_of a @ bytes_of b"
  by (simp add: bytes_of_def)

section \<open>The nonce\<close>

text \<open>
  Claim C10. For every clock value and every random number, the nonce is the
  lower-case hexadecimal text of the MD5 digest of the decimal Unix time followed
  by the decimal random number; it has 32 characters, all of them digits or
  letters a to f, so that escaping it for the base string or the header leaves it
  as it is.
\<close>

theorem nonce_is_32_hex_digits:
  "nonce now r = hex_bytes (md5 (bytes_of (FormatInt now @ FormatInt r)))
   \<and> length (nonce now r) = 32
   \<and> list_all (\<lambda>c. c \<in> set ''0123456789abcdef'') (nonce now r)
   \<and> QueryEscape (nonce now r) = nonce now r
   \<and> normalizeSpace (QueryEscape (nonce now r)) = nonce now r"
proof -
  have alnum: "list_all is_alnum (nonce now r)"
    using hex_bytes_chars [of "md5 (bytes_of (FormatInt now) @ bytes_of (FormatInt r))"]
    by (simp add: nonce_def list_all_iff hexdigit_alnum del: set_simps)
  show ?thesis
    using alnum hex_bytes_chars [of "md5 (bytes_of (FormatInt now) @ bytes_of (FormatInt r))"]
    by (simp add: nonce_def bytes_of_append length_hex_bytes length_md5 QueryEscape_def
        escape_alnum normalizeSpace_alnum del: set_simps)
qed

end
